theory Spec2Isabelle
  imports Main
begin

section \<open>toolenv: a virtual tool environment manager\<close>

text \<open>
  The program (\<^verbatim>\<open>main.go\<close>) reads a manifest of tools, resolves a download URL
  for each tool from a template, downloads and unpacks the archive into a
  per-tool directory, and writes a shell script \<^verbatim>\<open>bin/activate\<close>.

  Go strings are byte strings and are modelled as \<^typ>\<open>string\<close>. The characters
  that cannot be written inside a string literal get names.
\<close>

definition dquote :: char where "dquote = CHR 0x22"
definition bslash :: char where "bslash = CHR 0x5C"
definition tab :: char where "tab = CHR 0x09"
definition cret :: char where "cret = CHR 0x0D"
definition newline :: char where "newline = CHR 0x0A"

subsection \<open>Data model\<close>

text \<open>
  \<^verbatim>\<open>type ToolNormalization struct { Arch map[string]string; OS map[string]string }\<close>
  and \<^verbatim>\<open>type Tool struct { Name, Version, URL string; Env map[string]string;
  Normalization *ToolNormalization }\<close>. A Go map is a partial function (a nil
  map reads like an empty one); the nullable pointer is an option.
\<close>

record ToolNormalization =
  Arch :: "string \<rightharpoonup> string"
  OS :: "string \<rightharpoonup> string"

record Tool =
  Name :: string
  Version :: string
  URL :: string
  Env :: "string \<rightharpoonup> string"
  Normalization :: "ToolNormalization option"

subsection \<open>The fragment of Go's text/template that the program relies on\<close>

text \<open>
  \<^verbatim>\<open>buildURL\<close> and \<^verbatim>\<open>generateActivationScript\<close> call \<^verbatim>\<open>template.New(..).Parse\<close>
  and \<^verbatim>\<open>Execute\<close> of the Go standard library with a \<^verbatim>\<open>map[string]string\<close> as
  data. The library is modelled on the following fragment, with the default
  delimiters:
  \<^item> text outside actions is copied;
  \<^item> an action \<^verbatim>\<open>{{.name}}\<close> (spaces allowed around \<^verbatim>\<open>.name\<close>) looks the key
    \<^verbatim>\<open>name\<close> up in the data map; a missing key of a \<^verbatim>\<open>map[string]string\<close>
    yields the zero value of the element type, the empty string;
  \<^item> an action that starts with a bare word that is neither a keyword, a
    builtin function nor a boolean constant makes \<^verbatim>\<open>Parse\<close> fail (the lexer
    rejects the character after the word, or the parser reports
    \<^verbatim>\<open>function "word" not defined\<close>);
  \<^item> an empty action and an unclosed action make \<^verbatim>\<open>Parse\<close> fail.
  Every other action (trim markers, comments, pipelines, control structures,
  literals, variables, field chains, bytes outside ASCII) gets the outcome
  \<open>Unmodelled\<close>: the model makes no statement about such a template.
\<close>

datatype tmpl_error =
    UndefinedFunction string
  | BadCharacter char
  | UnclosedAction
  | MissingValue
  | Unmodelled

datatype node = TextNode string | FieldNode string

definition isSpace :: "char \<Rightarrow> bool" where
  "isSpace c \<longleftrightarrow> c = CHR '' '' \<or> c = tab \<or> c = cret \<or> c = newline"

definition byte :: "char \<Rightarrow> nat" where
  "byte c = of_char c"

definition isDigit :: "char \<Rightarrow> bool" where
  "isDigit c \<longleftrightarrow> byte CHR ''0'' \<le> byte c \<and> byte c \<le> byte CHR ''9''"

definition isLetter :: "char \<Rightarrow> bool" where
  "isLetter c \<longleftrightarrow>
     (byte CHR ''a'' \<le> byte c \<and> byte c \<le> byte CHR ''z'') \<or>
     (byte CHR ''A'' \<le> byte c \<and> byte c \<le> byte CHR ''Z'')"

definition isAlphaNumeric :: "char \<Rightarrow> bool" where
  "isAlphaNumeric c \<longleftrightarrow> c = CHR ''_'' \<or> isLetter c \<or> isDigit c"

definition isASCII :: "char \<Rightarrow> bool" where
  "isASCII c \<longleftrightarrow> byte c \<le> 127"

text \<open>
  \<^verbatim>\<open>strings.Index(input, "{{")\<close>: the text before the first left delimiter and,
  when there is one, the input after it.
\<close>

fun find_left_delim :: "string \<Rightarrow> string \<times> string option" where
  "find_left_delim [] = ([], None)"
| "find_left_delim [c] = ([c], None)"
| "find_left_delim (c # d # cs) =
     (if c = CHR ''{'' \<and> d = CHR ''{'' then ([], Some cs)
      else (case find_left_delim (d # cs) of (pre, r) \<Rightarrow> (c # pre, r)))"

definition at_right_delim :: "string \<Rightarrow> bool" where
  "at_right_delim s \<longleftrightarrow> take 2 s = ''}}''"

text \<open>\<^verbatim>\<open>lexer.atTerminator\<close>: what may follow a word or a field.\<close>

definition atTerminator :: "string \<Rightarrow> bool" where
  "atTerminator s \<longleftrightarrow>
     (case s of
        [] \<Rightarrow> True
      | c # _ \<Rightarrow> isSpace c \<or> c \<in> set ''.,|:)('' \<or> at_right_delim s)"

text \<open>
  Words with a meaning of their own: the keywords of the lexer, the boolean
  constants and the builtin functions.
\<close>

definition reserved_words :: "string list" where
  "reserved_words =
     [''block'', ''break'', ''continue'', ''define'', ''else'', ''end'', ''if'',
      ''range'', ''nil'', ''template'', ''with'', ''true'', ''false'',
      ''and'', ''call'', ''html'', ''index'', ''slice'', ''js'', ''len'', ''not'',
      ''or'', ''print'', ''printf'', ''println'', ''urlquery'',
      ''eq'', ''ge'', ''gt'', ''le'', ''lt'', ''ne'']"

text \<open>
  One action: the input right after \<^verbatim>\<open>{{\<close>. The result is the node of the
  action and the input after its \<^verbatim>\<open>}}\<close>.
\<close>

definition lex_action :: "string \<Rightarrow> tmpl_error + (node \<times> string)" where
  "lex_action s =
     (let s1 = dropWhile isSpace s in
      case s1 of
        [] \<Rightarrow> (if s = [] then Inl UnclosedAction else Inl Unmodelled)
      | c # cs \<Rightarrow>
          if take 2 s = ''- '' \<or> take 2 s = [CHR ''-'', tab] \<or> take 2 s = [CHR ''-'', cret]
             \<or> take 2 s = [CHR ''-'', newline] then Inl Unmodelled
          else if at_right_delim s1 then Inl MissingValue
          else if c = CHR ''.'' then
            (let name = takeWhile isAlphaNumeric cs;
                 r = dropWhile isSpace (dropWhile isAlphaNumeric cs) in
             if name = [] \<or> isDigit (hd name) then Inl Unmodelled
             else if at_right_delim r then Inr (FieldNode name, drop 2 r)
             else Inl Unmodelled)
          else if c = CHR ''_'' \<or> isLetter c then
            (let word = takeWhile isAlphaNumeric s1;
                 r = dropWhile isAlphaNumeric s1 in
             if word \<in> set reserved_words then Inl Unmodelled
             else if atTerminator r then Inl (UndefinedFunction word)
             else if isASCII (hd r) then Inl (BadCharacter (hd r))
             else Inl Unmodelled)
          else Inl Unmodelled)"

lemma find_left_delim_shorter:
  "find_left_delim s = (pre, Some r) \<Longrightarrow> length r < length s"
  by (induction s arbitrary: pre rule: find_left_delim.induct)
     (auto split: if_splits prod.splits)

lemma lex_action_shorter:
  "lex_action s = Inr (n, r) \<Longrightarrow> length r \<le> length s"
proof -
  have a: "length (dropWhile P (xs :: string)) \<le> length xs" for P xs
    by (rule length_dropWhile_le)
  assume "lex_action s = Inr (n, r)"
  then obtain c cs where s1: "dropWhile isSpace s = c # cs"
    and r: "r = drop 2 (dropWhile isSpace (dropWhile isAlphaNumeric cs))"
    by (auto simp: lex_action_def Let_def split: list.splits if_splits)
  have "length r \<le> length cs"
    unfolding r using a[of isSpace "dropWhile isAlphaNumeric cs"] a[of isAlphaNumeric cs]
    by simp
  moreover have "length (c # cs) \<le> length s"
    using a[of isSpace s] s1 by simp
  ultimately show ?thesis by simp
qed

text \<open>
  \<^verbatim>\<open>Parse\<close>: text up to the next \<^verbatim>\<open>{{\<close>, one action, and so on to the end of the
  input. The first action that fails decides the outcome.
\<close>

function Parse :: "string \<Rightarrow> tmpl_error + node list" where
  "Parse s =
     (case find_left_delim s of
        (pre, None) \<Rightarrow> Inr (if pre = [] then [] else [TextNode pre])
      | (pre, Some rest) \<Rightarrow>
          (case lex_action rest of
             Inl e \<Rightarrow> Inl e
           | Inr (n, rest') \<Rightarrow>
               (case Parse rest' of
                  Inl e \<Rightarrow> Inl e
                | Inr ns \<Rightarrow> Inr ((if pre = [] then [] else [TextNode pre]) @ n # ns))))"
  by pat_completeness auto
termination
proof (relation "measure length")
  show "wf (measure length)" by simp
next
  fix s :: string and pre r rest y n rest'
  assume "(pre, r) = find_left_delim s" "r = Some rest"
    "lex_action rest = Inr y" "(n, rest') = y"
  then have "length rest < length s" "length rest' \<le> length rest"
    using find_left_delim_shorter[of s pre rest] lex_action_shorter[of rest n rest']
    by simp_all
  then show "(rest', s) \<in> measure length" by simp
qed

declare Parse.simps [simp del]

text \<open>
  \<^verbatim>\<open>Execute\<close> with a \<^verbatim>\<open>map[string]string\<close> as data: a text node is written as
  it is, a field node writes the value of the key, and the empty string when
  the key is missing. Nothing in the fragment can fail at this stage.
\<close>

fun exec_node :: "(string \<rightharpoonup> string) \<Rightarrow> node \<Rightarrow> string" where
  "exec_node data (TextNode t) = t"
| "exec_node data (FieldNode f) = (case data f of None \<Rightarrow> [] | Some v \<Rightarrow> v)"

definition Execute :: "node list \<Rightarrow> (string \<rightharpoonup> string) \<Rightarrow> tmpl_error + string" where
  "Execute tmpl data = Inr (concat (map (exec_node data) tmpl))"

subsection \<open>buildURL\<close>

definition buildURL :: "string \<Rightarrow> string \<Rightarrow> string \<Rightarrow> string \<Rightarrow> tmpl_error + string" where
  "buildURL template_string version os_name arch =
     (case Parse template_string of
        Inl err \<Rightarrow> Inl err
      | Inr tmpl \<Rightarrow>
          (let data = [''version'' \<mapsto> version, ''os'' \<mapsto> os_name, ''arch'' \<mapsto> arch] in
           case Execute tmpl data of
             Inl err \<Rightarrow> Inl err
           | Inr buf \<Rightarrow> Inr buf))"

subsection \<open>The host: operating system, network and runtime\<close>

text \<open>
  Everything the program does to the outside world is recorded as an event, in
  the order in which it happens. The events are the calls of the source:
  \<^verbatim>\<open>fmt.Printf\<close>, \<^verbatim>\<open>os.Open\<close> and the deferred \<^verbatim>\<open>Close\<close>, \<^verbatim>\<open>os.MkdirAll\<close>,
  \<^verbatim>\<open>os.RemoveAll\<close>, \<^verbatim>\<open>http.Get\<close> and the deferred \<^verbatim>\<open>response.Body.Close\<close>,
  \<^verbatim>\<open>os.CreateTemp\<close> (with the name of the file it created), \<^verbatim>\<open>io.Copy\<close> into
  the scratch file, \<^verbatim>\<open>os.Remove\<close>, \<^verbatim>\<open>cmd.Run\<close> (with the command line) and
  \<^verbatim>\<open>os.WriteFile\<close> (with path and content). \<^verbatim>\<open>os.Open\<close> and \<^verbatim>\<open>os.CreateTemp\<close>
  are recorded when they succeed; the other calls are recorded whenever they
  are made, since a failed call may have had a partial effect.
\<close>

datatype event =
    Print string
  | OpenFile string
  | CloseFile string
  | MkdirAll string
  | RemoveAll string
  | HttpGet string
  | CloseBody
  | CreateTemp string
  | Copy string
  | Remove string
  | Run "string list"
  | WriteFile string string

text \<open>
  Of the response the program reads \<^verbatim>\<open>StatusCode\<close> and \<^verbatim>\<open>Status\<close>; the body is
  only handed to \<^verbatim>\<open>io.Copy\<close> and closed.
\<close>

record response =
  StatusCode :: int
  Status :: string

text \<open>
  The host decides the outcome of every call the program checks. Each outcome
  may depend on the events so far. An error is the message of the Go error.
  \<open>range_keys k m\<close> is the order in which the \<open>k\<close>-th \<^verbatim>\<open>range\<close> statement over a
  map, counted within one call of \<^verbatim>\<open>generateActivationScript\<close>, visits the
  keys of \<open>m\<close>: Go leaves that order unspecified.
\<close>

record host =
  GOOS :: string
  GOARCH :: string
  open_file :: "event list \<Rightarrow> string \<Rightarrow> string option"
  yaml_decode :: "event list \<Rightarrow> string + Tool list"
  mkdir_all :: "event list \<Rightarrow> string \<Rightarrow> string option"
  remove_all :: "event list \<Rightarrow> string \<Rightarrow> string option"
  http_get :: "event list \<Rightarrow> string \<Rightarrow> string + response"
  create_temp :: "event list \<Rightarrow> string + string"
  io_copy :: "event list \<Rightarrow> string option"
  cmd_run :: "event list \<Rightarrow> string list \<Rightarrow> string option"
  write_file :: "event list \<Rightarrow> string \<Rightarrow> string \<Rightarrow> string option"
  range_keys :: "nat \<Rightarrow> (string \<rightharpoonup> string) \<Rightarrow> string list"


subsection \<open>Paths (Unix conventions)\<close>

text \<open>
  \<^verbatim>\<open>filepath.Ext\<close>: the loop runs from the last byte towards the first, stops at
  a path separator, and returns the suffix that starts at the first dot it
  meets.
\<close>

fun ext_scan :: "string \<Rightarrow> string \<Rightarrow> string" where
  "ext_scan [] suffix = []"
| "ext_scan (c # earlier) suffix =
     (if c = CHR ''/'' then []
      else if c = CHR ''.'' then c # suffix
      else ext_scan earlier (c # suffix))"

definition Ext :: "string \<Rightarrow> string" where
  "Ext path = ext_scan (rev path) []"

text \<open>
  \<^verbatim>\<open>filepath.Clean\<close> as documented: multiple separators become one, \<^verbatim>\<open>.\<close>
  elements go, an inner \<^verbatim>\<open>..\<close> goes with the element before it, a \<^verbatim>\<open>..\<close> that
  begins a rooted path goes, and the empty result is \<^verbatim>\<open>.\<close>. \<^verbatim>\<open>filepath.Join\<close>
  starts at the first non-empty element, joins with separators and cleans.
\<close>

fun split_sep :: "string \<Rightarrow> string list" where
  "split_sep [] = [[]]"
| "split_sep (c # cs) =
     (if c = CHR ''/'' then [] # split_sep cs
      else (case split_sep cs of
              [] \<Rightarrow> [[c]]
            | x # xs \<Rightarrow> (c # x) # xs))"

fun join_sep :: "string list \<Rightarrow> string" where
  "join_sep [] = []"
| "join_sep [x] = x"
| "join_sep (x # y # ys) = x @ ''/'' @ join_sep (y # ys)"

definition clean_step :: "bool \<Rightarrow> string list \<Rightarrow> string \<Rightarrow> string list" where
  "clean_step rooted out c =
     (if c = [] \<or> c = ''.'' then out
      else if c = ''..'' then
        (case out of
           [] \<Rightarrow> (if rooted then [] else [''..''])
         | el # below \<Rightarrow> (if el = ''..'' then ''..'' # out else below))
      else c # out)"

definition Clean :: "string \<Rightarrow> string" where
  "Clean path =
     (if path = [] then ''.''
      else
        (let rooted = (hd path = CHR ''/'');
             out = foldl (clean_step rooted) [] (split_sep path);
             body = join_sep (rev out)
         in if rooted then ''/'' @ body
            else if body = [] then ''.'' else body))"

definition Join :: "string list \<Rightarrow> string" where
  "Join elem =
     (case dropWhile (\<lambda>e. e = []) elem of
        [] \<Rightarrow> []
      | e # es \<Rightarrow> Clean (join_sep (e # es)))"

subsection \<open>normalizeSystem\<close>

text \<open>
  \<^verbatim>\<open>runtime.GOARCH\<close> and \<^verbatim>\<open>runtime.GOOS\<close> are read from the host. The result is
  the pair \<^verbatim>\<open>(os_name, arch)\<close>, in the order of the source.
\<close>

definition normalizeSystem :: "host \<Rightarrow> ToolNormalization option \<Rightarrow> string \<times> string" where
  "normalizeSystem h spec =
     (let arch = GOARCH h;
          os_name = GOOS h
      in case spec of
           None \<Rightarrow> (os_name, arch)
         | Some sp \<Rightarrow>
             (let arch = (case Arch sp arch of Some mapped_arch \<Rightarrow> mapped_arch | None \<Rightarrow> arch);
                  os_name = (case OS sp os_name of Some mapped_os \<Rightarrow> mapped_os | None \<Rightarrow> os_name)
              in (os_name, arch)))"

subsection \<open>installTool\<close>

datatype install_error =
    GetFailed string
  | BadStatus string
  | CreateTempFailed string
  | CopyFailed string
  | UnsupportedFormat string
  | ExtractFailed string

definition extractTarGz :: "host \<Rightarrow> string \<Rightarrow> string \<Rightarrow> event list \<Rightarrow> string option \<times> event list" where
  "extractTarGz h filename install_dir tr =
     (let cmd = [''tar'', ''-xzf'', filename, ''-C'', install_dir, ''--strip-components=1'']
      in (cmd_run h tr cmd, tr @ [Run cmd]))"

definition extractTarXz :: "host \<Rightarrow> string \<Rightarrow> string \<Rightarrow> event list \<Rightarrow> string option \<times> event list" where
  "extractTarXz h filename install_dir tr =
     (let cmd = [''tar'', ''-xJf'', filename, ''-C'', install_dir, ''--strip-components=1'']
      in (cmd_run h tr cmd, tr @ [Run cmd]))"

text \<open>
  The calls deferred once the scratch file exists, in the order in which they
  run when the function returns (last deferred first): \<^verbatim>\<open>tmp_file.Close()\<close>,
  \<^verbatim>\<open>os.Remove(tmp_file.Name())\<close>, the \<^verbatim>\<open>Printf\<close> of the removal message and
  \<^verbatim>\<open>response.Body.Close()\<close>.
\<close>

definition scratch_deferred :: "string \<Rightarrow> event list" where
  "scratch_deferred tmp =
     [CloseFile tmp, Remove tmp,
      Print (''|- Removing the temporary file '' @ tmp @ [newline]), CloseBody]"

definition downloading :: "string \<Rightarrow> event" where
  "downloading url = Print (''|- Downloading from '' @ [dquote] @ url @ [dquote, newline])"

definition creating :: "string \<Rightarrow> event" where
  "creating tmp = Print (''|- Creating a temporary file '' @ tmp @ [newline])"

definition installTool ::
  "host \<Rightarrow> string \<Rightarrow> string \<Rightarrow> event list \<Rightarrow> install_error option \<times> event list" where
  "installTool h url install_dir tr =
     (let tr1 = tr @ [downloading url]
      in case http_get h tr1 url of
           Inl err \<Rightarrow> (Some (GetFailed err), tr1 @ [HttpGet url])
         | Inr response \<Rightarrow>
             (let tr2 = tr1 @ [HttpGet url]
              in if StatusCode response \<noteq> 200
                 then (Some (BadStatus (Status response)), tr2 @ [CloseBody])
                 else
                   (case create_temp h tr2 of
                      Inl err \<Rightarrow> (Some (CreateTempFailed err), tr2 @ [CloseBody])
                    | Inr tmp \<Rightarrow>
                        (let tr3 = tr2 @ [CreateTemp tmp, creating tmp];
                             tr4 = tr3 @ [Copy tmp]
                         in case io_copy h tr3 of
                              Some err \<Rightarrow> (Some (CopyFailed err), tr4 @ scratch_deferred tmp)
                            | None \<Rightarrow>
                                (let extension = Ext url
                                 in if extension = ''.gz'' \<or> extension = ''.tgz'' then
                                      (case extractTarGz h tmp install_dir tr4 of
                                         (r, tr5) \<Rightarrow>
                                           (map_option ExtractFailed r, tr5 @ scratch_deferred tmp))
                                    else if extension = ''.xz'' then
                                      (case extractTarXz h tmp install_dir tr4 of
                                         (r, tr5) \<Rightarrow>
                                           (map_option ExtractFailed r, tr5 @ scratch_deferred tmp))
                                    else (Some (UnsupportedFormat extension),
                                          tr4 @ scratch_deferred tmp))))))"

subsection \<open>generateActivationScript\<close>

text \<open>
  The \<^verbatim>\<open>strings.Builder\<close> is the list of the chunks written so far: one
  constructor for each \<^verbatim>\<open>sb.WriteString\<close> call of the source, with the values
  that its \<^verbatim>\<open>Sprintf\<close> inserts. \<open>chunk_text\<close> is the text of the call, and the
  content of the builder is the concatenation of the texts.
\<close>

datatype chunk =
    UsageComment string
  | ModifiesComment
  | SetToolenvDir string
  | SavePath
  | PrependPath string
  | ExportVar string string
  | SavePS1
  | SetPS1
  | DeactivateOpen
  | RestorePS1
  | UnsetOldPS1
  | UnsetVar string
  | RestorePath
  | UnsetPreviousPath
  | UnsetToolenvDir
  | UnsetDeactivate
  | DeactivateClose

fun chunk_text :: "chunk \<Rightarrow> string" where
  "chunk_text (UsageComment env_name) =
     ''# This file must be used with '' @ [dquote] @ ''source '' @ env_name @ ''/bin/activate''
       @ [dquote, newline]"
| "chunk_text ModifiesComment = ''# It modifies the current shell environment.'' @ [newline]"
| "chunk_text (SetToolenvDir env_name) =
     ''export TOOLENV_DIR='' @ [dquote] @ ''$(pwd)/'' @ env_name @ [dquote, newline]"
| "chunk_text SavePath = ''export PREVIOUS_PATH='' @ [dquote] @ ''$PATH'' @ [dquote, newline]"
| "chunk_text (PrependPath buf) =
     ''export PATH='' @ [dquote] @ ''$TOOLENV_DIR/'' @ buf @ '':$PATH'' @ [dquote, newline]"
| "chunk_text (ExportVar key buf) =
     ''export '' @ key @ ''='' @ [dquote] @ ''$TOOLENV_DIR/'' @ buf @ [dquote, newline]"
| "chunk_text SavePS1 = ''export OLD_PS1='' @ [dquote] @ ''$PS1'' @ [dquote, newline]"
| "chunk_text SetPS1 = ''export PS1='' @ [dquote] @ ''(toolenv:env) $PS1'' @ [dquote, newline]"
| "chunk_text DeactivateOpen = ''deactivate() {'' @ [newline]"
| "chunk_text RestorePS1 = [tab] @ ''export PS1='' @ [dquote] @ ''$OLD_PS1'' @ [dquote, newline]"
| "chunk_text UnsetOldPS1 = [tab] @ ''unset OLD_PS1'' @ [newline]"
| "chunk_text (UnsetVar key) = [tab] @ ''unset '' @ key @ [newline]"
| "chunk_text RestorePath = [tab] @ ''export PATH=$PREVIOUS_PATH'' @ [newline]"
| "chunk_text UnsetPreviousPath = [tab] @ ''unset PREVIOUS_PATH'' @ [newline]"
| "chunk_text UnsetToolenvDir = [tab] @ ''unset TOOLENV_DIR'' @ [newline]"
| "chunk_text UnsetDeactivate = [tab] @ ''unset -f deactivate'' @ [newline]"
| "chunk_text DeactivateClose = ''}''"

definition builder_string :: "chunk list \<Rightarrow> string" where
  "builder_string sb = concat (map chunk_text sb)"

text \<open>\<^verbatim>\<open>strings.ReplaceAll(value, `"`, `\"`)\<close>.\<close>

definition escape_quotes :: "string \<Rightarrow> string" where
  "escape_quotes v = concat (map (\<lambda>c. if c = dquote then [bslash, dquote] else [c]) v)"

text \<open>
  The body of the inner loop up to the two \<^verbatim>\<open>WriteString\<close> calls: the value is
  escaped, parsed as a template and executed with \<^verbatim>\<open>version\<close> as the only key.
\<close>

definition expand_env_value :: "string \<Rightarrow> string \<Rightarrow> tmpl_error + string" where
  "expand_env_value v version =
     (let escaped_value = escape_quotes v
      in case Parse escaped_value of
           Inl err \<Rightarrow> Inl err
         | Inr tmpl \<Rightarrow>
             (let data = [''version'' \<mapsto> version]
              in case Execute tmpl data of
                   Inl err \<Rightarrow> Inl err
                 | Inr buf \<Rightarrow> Inr buf))"

text \<open>
  The first pair of loops. The inner loop runs over the keys of \<^verbatim>\<open>tool.Env\<close> in
  the order the host chooses for this \<^verbatim>\<open>range\<close> statement.
\<close>

fun export_entries :: "Tool \<Rightarrow> string list \<Rightarrow> chunk list \<Rightarrow> tmpl_error + chunk list" where
  "export_entries tool [] sb = Inr sb"
| "export_entries tool (key # keys) sb =
     (case Env tool key of
        None \<Rightarrow> export_entries tool keys sb
      | Some v \<Rightarrow>
          (case expand_env_value v (Version tool) of
             Inl err \<Rightarrow> Inl err
           | Inr buf \<Rightarrow>
               export_entries tool keys
                 (sb @ [if key = ''PATH'' then PrependPath buf else ExportVar key buf])))"

fun export_tools :: "host \<Rightarrow> nat \<Rightarrow> Tool list \<Rightarrow> chunk list \<Rightarrow> tmpl_error + chunk list" where
  "export_tools h k [] sb = Inr sb"
| "export_tools h k (tool # tools) sb =
     (case export_entries tool (range_keys h k (Env tool)) sb of
        Inl err \<Rightarrow> Inl err
      | Inr sb' \<Rightarrow> export_tools h (Suc k) tools sb')"

text \<open>The second pair of loops, inside the \<^verbatim>\<open>deactivate\<close> function.\<close>

fun unset_entries :: "string list \<Rightarrow> chunk list \<Rightarrow> chunk list" where
  "unset_entries [] sb = sb"
| "unset_entries (key # keys) sb =
     (if key = ''PATH'' then unset_entries keys sb
      else unset_entries keys (sb @ [UnsetVar key]))"

fun unset_tools :: "host \<Rightarrow> nat \<Rightarrow> Tool list \<Rightarrow> chunk list \<Rightarrow> chunk list" where
  "unset_tools h k [] sb = sb"
| "unset_tools h k (tool # tools) sb =
     unset_tools h (Suc k) tools (unset_entries (range_keys h k (Env tool)) sb)"

text \<open>The builder at the end of the function, or the template error that ends it.\<close>

definition script_chunks :: "host \<Rightarrow> string \<Rightarrow> Tool list \<Rightarrow> tmpl_error + chunk list" where
  "script_chunks h env_name tools =
     (let sb = [UsageComment env_name, ModifiesComment, SetToolenvDir env_name, SavePath]
      in case export_tools h 0 tools sb of
           Inl err \<Rightarrow> Inl err
         | Inr sb \<Rightarrow>
             (let sb = sb @ [SavePS1, SetPS1, DeactivateOpen, RestorePS1, UnsetOldPS1];
                  sb = unset_tools h (length tools) tools sb
              in Inr (sb @ [RestorePath, UnsetPreviousPath, UnsetToolenvDir,
                            UnsetDeactivate, DeactivateClose])))"

datatype error =
    OpenConfigFailed string
  | ParseConfigFailed string
  | CreateEnvFailed string
  | CleanupStorageFailed string
  | BuildURLFailed tmpl_error
  | CreateInstallDirFailed string
  | InstallFailed string install_error
  | TemplateFailed tmpl_error
  | WriteFailed string

definition generateActivationScript ::
  "host \<Rightarrow> string \<Rightarrow> Tool list \<Rightarrow> event list \<Rightarrow> error option \<times> event list" where
  "generateActivationScript h env_name tools tr =
     (let activate_dir = Join [env_name, ''bin'', ''activate'']
      in case script_chunks h env_name tools of
           Inl err \<Rightarrow> (Some (TemplateFailed err), tr)
         | Inr sb \<Rightarrow>
             (map_option WriteFailed (write_file h tr activate_dir (builder_string sb)),
              tr @ [WriteFile activate_dir (builder_string sb)]))"

subsection \<open>The run: loadEnv and setup\<close>

text \<open>
  \<^verbatim>\<open>setup\<close> of the source is \<open>setup_env\<close> here, since the source's name is a
  command of Isabelle. \<^verbatim>\<open>main\<close> calls it with the name \<^verbatim>\<open>env\<close>.
\<close>

definition loadEnv :: "host \<Rightarrow> event list \<Rightarrow> (error + Tool list) \<times> event list" where
  "loadEnv h tr =
     (case open_file h tr ''toolenv.yml'' of
        Some err \<Rightarrow> (Inl (OpenConfigFailed err), tr)
      | None \<Rightarrow>
          (let tr1 = tr @ [OpenFile ''toolenv.yml'']
           in case yaml_decode h tr1 of
                Inl err \<Rightarrow> (Inl (ParseConfigFailed err), tr1 @ [CloseFile ''toolenv.yml''])
              | Inr tools \<Rightarrow> (Inr tools, tr1 @ [CloseFile ''toolenv.yml''])))"

text \<open>The loop over \<^verbatim>\<open>config.Tools\<close>.\<close>

fun install_tools :: "host \<Rightarrow> string \<Rightarrow> Tool list \<Rightarrow> event list \<Rightarrow> error option \<times> event list" where
  "install_tools h storage_dir [] tr = (None, tr)"
| "install_tools h storage_dir (tool # tools) tr =
     (case normalizeSystem h (Normalization tool) of
        (os_name, arch) \<Rightarrow>
          (case buildURL (URL tool) (Version tool) os_name arch of
             Inl err \<Rightarrow> (Some (BuildURLFailed err), tr)
           | Inr url \<Rightarrow>
               (let install_dir = Join [storage_dir, Name tool @ ''@'' @ Version tool]
                in case mkdir_all h tr install_dir of
                     Some err \<Rightarrow> (Some (CreateInstallDirFailed err), tr @ [MkdirAll install_dir])
                   | None \<Rightarrow>
                       (let tr1 = tr @ [MkdirAll install_dir,
                                    Print ([newline] @ ''Installing '' @ Name tool @ '' version ''
                                           @ Version tool @ '' ...'' @ [newline])]
                        in case installTool h url install_dir tr1 of
                             (Some err, tr2) \<Rightarrow> (Some (InstallFailed (Name tool) err), tr2)
                           | (None, tr2) \<Rightarrow>
                               install_tools h storage_dir tools
                                 (tr2 @ [Print (''|- Done!'' @ [newline, newline])])))))"

definition setup_env :: "host \<Rightarrow> string \<Rightarrow> error option \<times> event list" where
  "setup_env h env_name =
     (case loadEnv h [] of
        (Inl err, tr) \<Rightarrow> (Some err, tr)
      | (Inr tools, tr) \<Rightarrow>
          (let env_dir = Join [''.'', env_name];
               bin_dir = Join [env_dir, ''bin'']
           in case mkdir_all h tr bin_dir of
                Some err \<Rightarrow> (Some (CreateEnvFailed err), tr @ [MkdirAll bin_dir])
              | None \<Rightarrow>
                  (let tr1 = tr @ [MkdirAll bin_dir];
                       storage_dir = Join [env_name, ''storage'']
                   in case remove_all h tr1 storage_dir of
                        Some err \<Rightarrow> (Some (CleanupStorageFailed err), tr1 @ [RemoveAll storage_dir])
                      | None \<Rightarrow>
                          (case install_tools h storage_dir tools (tr1 @ [RemoveAll storage_dir]) of
                             (Some err, tr2) \<Rightarrow> (Some err, tr2)
                           | (None, tr2) \<Rightarrow>
                               (case generateActivationScript h env_name tools tr2 of
                                  (Some err, tr3) \<Rightarrow> (Some err, tr3)
                                | (None, tr3) \<Rightarrow>
                                    (None,
                                     tr3 @ [Print (''Environment created at ./'' @ env_dir @ [newline]),
                                            Print (''Activate with: source ./'' @ env_dir
                                                   @ ''/bin/activate'' @ [newline])]))))))"

subsection \<open>The shell's reading of the activation script\<close>

text \<open>
  The script is meant to be sourced. Its commands up to the definition of
  \<^verbatim>\<open>deactivate\<close> are assignments, read here the usual way: the shell state maps a
  variable to its value, \<^verbatim>\<open>$X\<close> is the value of \<open>X\<close> (empty when unset), and an
  inserted key or value stands for itself (the key is an identifier, the value
  holds no character that is special between double quotes). \<open>pwd\<close> is the
  output of \<^verbatim>\<open>$(pwd)\<close>. The body of the function is stored, not run, and nothing
  follows it.
\<close>

type_synonym shell = "string \<rightharpoonup> string"




subsection \<open>Points of a run, and a sample manifest\<close>

text \<open>
  The events of \<open>installTool\<close> up to the answer of the server, up to the
  creation of the scratch file, and up to the copy of the body; the command
  line of \<^verbatim>\<open>tar\<close>.
\<close>

definition fetched :: "string \<Rightarrow> event list \<Rightarrow> event list" where
  "fetched url tr = tr @ [downloading url, HttpGet url]"

definition scratch_created :: "string \<Rightarrow> string \<Rightarrow> event list \<Rightarrow> event list" where
  "scratch_created url tmp tr = fetched url tr @ [CreateTemp tmp, creating tmp]"

definition copied :: "string \<Rightarrow> string \<Rightarrow> event list \<Rightarrow> event list" where
  "copied url tmp tr = scratch_created url tmp tr @ [Copy tmp]"

definition tar_command :: "string \<Rightarrow> string \<Rightarrow> string \<Rightarrow> string list" where
  "tar_command flag filename install_dir =
     [''tar'', flag, filename, ''-C'', install_dir, ''--strip-components=1'']"

text \<open>
  The events of \<open>setup_env\<close> up to the loop over the tools, the two directories
  it computes, and the condition under which the run reaches the loop: the
  manifest opens and decodes to \<open>tools\<close>, \<^verbatim>\<open>bin/\<close> is created and the removal of
  \<^verbatim>\<open>storage/\<close> succeeds.
\<close>

definition config_read :: "event list" where
  "config_read = [OpenFile ''toolenv.yml'', CloseFile ''toolenv.yml'']"

definition bin_dir :: "string \<Rightarrow> string" where
  "bin_dir env_name = Join [Join [''.'', env_name], ''bin'']"

definition storage_dir :: "string \<Rightarrow> string" where
  "storage_dir env_name = Join [env_name, ''storage'']"

definition storage_reset :: "string \<Rightarrow> event list" where
  "storage_reset env_name =
     config_read @ [MkdirAll (bin_dir env_name), RemoveAll (storage_dir env_name)]"

definition reaches_tools :: "host \<Rightarrow> string \<Rightarrow> Tool list \<Rightarrow> bool" where
  "reaches_tools h env_name tools \<longleftrightarrow>
     open_file h [] ''toolenv.yml'' = None \<and>
     yaml_decode h [OpenFile ''toolenv.yml''] = Inr tools \<and>
     mkdir_all h config_read (bin_dir env_name) = None \<and>
     remove_all h (config_read @ [MkdirAll (bin_dir env_name)]) (storage_dir env_name) = None"




definition calm_host :: "Tool list \<Rightarrow> int \<Rightarrow> host" where
  "calm_host tools status =
     \<lparr>GOOS = ''linux'', GOARCH = ''amd64'',
      open_file = (\<lambda>tr path. None), yaml_decode = (\<lambda>tr. Inr tools),
      mkdir_all = (\<lambda>tr path. None), remove_all = (\<lambda>tr path. None),
      http_get = (\<lambda>tr url. Inr \<lparr>StatusCode = status, Status = ''status''\<rparr>),
      create_temp = (\<lambda>tr. Inr ''/tmp/toolenv-download-1''), io_copy = (\<lambda>tr. None),
      cmd_run = (\<lambda>tr cmd. None), write_file = (\<lambda>tr path content. None),
      range_keys = (\<lambda>k m. filter (\<lambda>key. m key \<noteq> None) [''GOROOT'', ''PATH''])\<rparr>"

subsection \<open>Templates as sequences of segments\<close>









subsection \<open>The chunks of a generated script\<close>








section \<open>Properties\<close>

subsection \<open>Template resolution\<close>

text \<open>
  C1, as the specification states it, fails on the code: the placeholders of
  the specification are bare words, and a bare word in an action is a call of
  a function that does not exist, so \<^verbatim>\<open>Parse\<close> rejects the template.
\<close>

theorem buildURL_bare_placeholders_rejected:
  "buildURL ''https://x/{{version}}/{{os}}-{{arch}}.tgz'' ''1.0'' ''linux'' ''x64''
     = Inl (UndefinedFunction ''version'')
   \<and> buildURL ''https://x/{{version}}/{{os}}-{{arch}}.tgz'' ''1.0'' ''linux'' ''x64''
     \<noteq> Inr ''https://x/1.0/linux-x64.tgz''"
  by code_simp

lemma Parse_dot_template:
  "Parse ''https://x/{{.version}}/{{.os}}-{{.arch}}.tgz''
     = Inr [TextNode ''https://x/'', FieldNode ''version'', TextNode ''/'', FieldNode ''os'',
            TextNode ''-'', FieldNode ''arch'', TextNode ''.tgz'']"
  by code_simp

text \<open>
  C1, amended: \<open>buildURL\<close> is a function of the template and the three values
  only, and with the placeholders written the way the program reads them,
  \<^verbatim>\<open>{{.version}}\<close>, \<^verbatim>\<open>{{.os}}\<close> and \<^verbatim>\<open>{{.arch}}\<close>, the template of the
  specification resolves for every binding to the text with the three values
  put in; for the bindings \<^verbatim>\<open>1.0\<close>, \<^verbatim>\<open>linux\<close>, \<^verbatim>\<open>x64\<close> the result is
  \<^verbatim>\<open>https://x/1.0/linux-x64.tgz\<close>.
\<close>

theorem buildURL_dot_placeholders:
  "buildURL ''https://x/{{.version}}/{{.os}}-{{.arch}}.tgz'' version os_name arch
     = Inr (''https://x/'' @ version @ ''/'' @ os_name @ ''-'' @ arch @ ''.tgz'')
   \<and> buildURL ''https://x/{{.version}}/{{.os}}-{{.arch}}.tgz'' ''1.0'' ''linux'' ''x64''
     = Inr ''https://x/1.0/linux-x64.tgz''"
  by (simp add: buildURL_def Parse_dot_template Execute_def)



















subsection \<open>Platform normalization\<close>

text \<open>
  C4: normalization starts from the detected pair and treats each axis on its
  own. An axis that the record maps is replaced, an axis that it does not map
  keeps the detected value, and so does every axis when there is no record.
  The operating system of the result depends on the detected operating system
  and the \<^verbatim>\<open>OS\<close> map only, the architecture on the detected architecture and
  the \<^verbatim>\<open>Arch\<close> map only. The function is total: it has no error result.
\<close>

theorem normalizeSystem_axes:
  "normalizeSystem h None = (GOOS h, GOARCH h)
   \<and> (Arch sp (GOARCH h) = Some a \<longrightarrow> snd (normalizeSystem h (Some sp)) = a)
   \<and> (Arch sp (GOARCH h) = None \<longrightarrow> snd (normalizeSystem h (Some sp)) = GOARCH h)
   \<and> (OS sp (GOOS h) = Some s \<longrightarrow> fst (normalizeSystem h (Some sp)) = s)
   \<and> (OS sp (GOOS h) = None \<longrightarrow> fst (normalizeSystem h (Some sp)) = GOOS h)
   \<and> fst (normalizeSystem (h\<lparr>GOARCH := a'\<rparr>) (Some (sp\<lparr>Arch := m\<rparr>)))
       = fst (normalizeSystem h (Some sp))
   \<and> snd (normalizeSystem (h\<lparr>GOOS := s'\<rparr>) (Some (sp\<lparr>OS := m\<rparr>)))
       = snd (normalizeSystem h (Some sp))"
  by (simp add: normalizeSystem_def Let_def split: option.splits)

theorem normalizeSystem_axes_witness:
  "Arch \<lparr>Arch = [''amd64'' \<mapsto> ''x64''], OS = Map.empty\<rparr> (GOARCH (calm_host [] 200)) = Some ''x64''
   \<and> snd (normalizeSystem (calm_host [] 200) (Some \<lparr>Arch = [''amd64'' \<mapsto> ''x64''], OS = Map.empty\<rparr>)) = ''x64''
   \<and> OS \<lparr>Arch = [''amd64'' \<mapsto> ''x64''], OS = Map.empty\<rparr> (GOOS (calm_host [] 200)) = None
   \<and> fst (normalizeSystem (calm_host [] 200) (Some \<lparr>Arch = [''amd64'' \<mapsto> ''x64''], OS = Map.empty\<rparr>)) = ''linux''
   \<and> Arch \<lparr>Arch = Map.empty, OS = [''linux'' \<mapsto> ''Linux'']\<rparr> (GOARCH (calm_host [] 200)) = None
   \<and> snd (normalizeSystem (calm_host [] 200) (Some \<lparr>Arch = Map.empty, OS = [''linux'' \<mapsto> ''Linux'']\<rparr>)) = ''amd64''
   \<and> OS \<lparr>Arch = Map.empty, OS = [''linux'' \<mapsto> ''Linux'']\<rparr> (GOOS (calm_host [] 200)) = Some ''Linux''
   \<and> fst (normalizeSystem (calm_host [] 200) (Some \<lparr>Arch = Map.empty, OS = [''linux'' \<mapsto> ''Linux'']\<rparr>)) = ''Linux''"
  using normalizeSystem_axes [of "calm_host [] 200" "\<lparr>Arch = [''amd64'' \<mapsto> ''x64''], OS = Map.empty\<rparr>" "''x64''"]
        normalizeSystem_axes [of "calm_host [] 200" "\<lparr>Arch = Map.empty, OS = [''linux'' \<mapsto> ''Linux'']\<rparr>" _ "''Linux''"]
  by (simp add: calm_host_def)

subsection \<open>Installing one tool\<close>

text \<open>
  C10: when the server answers with a status other than 200, \<open>installTool\<close>
  returns the error right after the deferred close of the body. The events of
  the call are the message, the request and that close: no scratch file is
  created, nothing is copied, no extraction command runs.
\<close>

theorem installTool_bad_status:
  assumes "http_get h (tr @ [downloading url]) url = Inr response"
    and "StatusCode response \<noteq> 200"
  shows "installTool h url install_dir tr
           = (Some (BadStatus (Status response)), tr @ [downloading url, HttpGet url, CloseBody])"
  using assms by (simp add: installTool_def Let_def)

theorem installTool_bad_status_witness:
  "installTool (calm_host [] 404) ''https://x/a.tgz'' ''env/storage/a@1'' []
     = (Some (BadStatus ''status''),
        [downloading ''https://x/a.tgz'', HttpGet ''https://x/a.tgz'', CloseBody])"
  using installTool_bad_status [of "calm_host [] 404" "[]" "''https://x/a.tgz''"
      "\<lparr>StatusCode = 404, Status = ''status''\<rparr>" "''env/storage/a@1''"]
  by (simp add: calm_host_def)


lemma Ext_suffix:
  assumes "CHR ''/'' \<notin> set e" and "CHR ''.'' \<notin> set e"
  shows "Ext (base @ ''.'' @ e) = ''.'' @ e"
proof -
  have "ext_scan (rev e @ rest) suffix = ext_scan rest (e @ suffix)" for rest suffix
    using assms by (induction e arbitrary: suffix rule: rev_induct) auto
  from this[of "CHR ''.'' # rev base" "[]"] show ?thesis
    by (simp add: Ext_def)
qed

text \<open>
  C2: once the body of the response is in the scratch file, what \<open>installTool\<close>
  does next is decided by \<open>Ext url\<close> alone, the suffix of the URL from the last
  dot of its last path element: \<^verbatim>\<open>.gz\<close> and \<^verbatim>\<open>.tgz\<close> run \<^verbatim>\<open>tar -xzf\<close>, \<^verbatim>\<open>.xz\<close>
  runs \<^verbatim>\<open>tar -xJf\<close>, and every other extension, the empty one too, ends the
  call with the unsupported-format error and without any command being run.
  The content of the download plays no part.
\<close>

theorem installTool_dispatch:
  assumes "http_get h (tr @ [downloading url]) url = Inr response"
    and "StatusCode response = 200"
    and "create_temp h (fetched url tr) = Inr tmp"
    and "io_copy h (scratch_created url tmp tr) = None"
  shows "installTool h url install_dir tr =
     (if Ext url = ''.gz'' \<or> Ext url = ''.tgz'' then
        (map_option ExtractFailed (cmd_run h (copied url tmp tr) (tar_command ''-xzf'' tmp install_dir)),
         copied url tmp tr @ [Run (tar_command ''-xzf'' tmp install_dir)] @ scratch_deferred tmp)
      else if Ext url = ''.xz'' then
        (map_option ExtractFailed (cmd_run h (copied url tmp tr) (tar_command ''-xJf'' tmp install_dir)),
         copied url tmp tr @ [Run (tar_command ''-xJf'' tmp install_dir)] @ scratch_deferred tmp)
      else (Some (UnsupportedFormat (Ext url)), copied url tmp tr @ scratch_deferred tmp))"
  using assms
  by (simp add: installTool_def Let_def fetched_def scratch_created_def copied_def
      tar_command_def extractTarGz_def extractTarXz_def)


theorem installTool_dispatch_witness:
  "installTool (calm_host [] 200) ''https://x/a.tgz'' ''env/storage/a@1'' []
     = (None, copied ''https://x/a.tgz'' ''/tmp/toolenv-download-1'' []
              @ [Run (tar_command ''-xzf'' ''/tmp/toolenv-download-1'' ''env/storage/a@1'')]
              @ scratch_deferred ''/tmp/toolenv-download-1'')
   \<and> installTool (calm_host [] 200) ''https://x/a.tar.xz'' ''env/storage/a@1'' []
     = (None, copied ''https://x/a.tar.xz'' ''/tmp/toolenv-download-1'' []
              @ [Run (tar_command ''-xJf'' ''/tmp/toolenv-download-1'' ''env/storage/a@1'')]
              @ scratch_deferred ''/tmp/toolenv-download-1'')
   \<and> installTool (calm_host [] 200) ''https://x/a.zip'' ''env/storage/a@1'' []
     = (Some (UnsupportedFormat ''.zip''),
        copied ''https://x/a.zip'' ''/tmp/toolenv-download-1'' []
          @ scratch_deferred ''/tmp/toolenv-download-1'')
   \<and> installTool (calm_host [] 200) ''https://x/a'' ''env/storage/a@1'' []
     = (Some (UnsupportedFormat []),
        copied ''https://x/a'' ''/tmp/toolenv-download-1'' []
          @ scratch_deferred ''/tmp/toolenv-download-1'')"
  using
    installTool_dispatch [of "calm_host [] 200" "[]" "''https://x/a.tgz''"
      "\<lparr>StatusCode = 200, Status = ''status''\<rparr>" "''/tmp/toolenv-download-1''"
      "''env/storage/a@1''"]
    installTool_dispatch [of "calm_host [] 200" "[]" "''https://x/a.tar.xz''"
      "\<lparr>StatusCode = 200, Status = ''status''\<rparr>" "''/tmp/toolenv-download-1''"
      "''env/storage/a@1''"]
    installTool_dispatch [of "calm_host [] 200" "[]" "''https://x/a.zip''"
      "\<lparr>StatusCode = 200, Status = ''status''\<rparr>" "''/tmp/toolenv-download-1''"
      "''env/storage/a@1''"]
    installTool_dispatch [of "calm_host [] 200" "[]" "''https://x/a''"
      "\<lparr>StatusCode = 200, Status = ''status''\<rparr>" "''/tmp/toolenv-download-1''"
      "''env/storage/a@1''"]
  by (simp add: calm_host_def Ext_def)

text \<open>
  C8: once the scratch file has been created, every way out of \<open>installTool\<close>
  (the copy fails, the extension is not supported, the extraction fails or
  succeeds) ends with the deferred calls: the file is closed, then removed.
  Between its creation and its removal only the copy and at most one \<^verbatim>\<open>tar\<close>
  command take place.
\<close>

theorem installTool_releases_scratch:
  assumes "http_get h (tr @ [downloading url]) url = Inr response"
    and "StatusCode response = 200"
    and "create_temp h (fetched url tr) = Inr tmp"
  shows "\<exists>work. snd (installTool h url install_dir tr)
            = scratch_created url tmp tr @ work
              @ [CloseFile tmp, Remove tmp,
                 Print (''|- Removing the temporary file '' @ tmp @ [newline]), CloseBody]
          \<and> (\<forall>e \<in> set work. e = Copy tmp \<or> (\<exists>cmd. e = Run cmd))"
  using assms
  by (auto simp add: installTool_def Let_def fetched_def scratch_created_def
      extractTarGz_def extractTarXz_def scratch_deferred_def split: option.splits)

theorem installTool_releases_scratch_witness:
  "(\<exists>work. snd (installTool (calm_host [] 200) ''https://x/a.tgz'' ''env/storage/a@1'' [])
       = scratch_created ''https://x/a.tgz'' ''/tmp/toolenv-download-1'' [] @ work
         @ [CloseFile ''/tmp/toolenv-download-1'', Remove ''/tmp/toolenv-download-1'',
            Print (''|- Removing the temporary file '' @ ''/tmp/toolenv-download-1'' @ [newline]),
            CloseBody])
   \<and> (\<exists>work. snd (installTool ((calm_host [] 200)\<lparr>io_copy := \<lambda>tr. Some ''disk full''\<rparr>)
                     ''https://x/a.tgz'' ''env/storage/a@1'' [])
       = scratch_created ''https://x/a.tgz'' ''/tmp/toolenv-download-1'' [] @ work
         @ [CloseFile ''/tmp/toolenv-download-1'', Remove ''/tmp/toolenv-download-1'',
            Print (''|- Removing the temporary file '' @ ''/tmp/toolenv-download-1'' @ [newline]),
            CloseBody])
   \<and> (\<exists>work. snd (installTool ((calm_host [] 200)\<lparr>cmd_run := \<lambda>tr cmd. Some ''exit status 2''\<rparr>)
                     ''https://x/a.tgz'' ''env/storage/a@1'' [])
       = scratch_created ''https://x/a.tgz'' ''/tmp/toolenv-download-1'' [] @ work
         @ [CloseFile ''/tmp/toolenv-download-1'', Remove ''/tmp/toolenv-download-1'',
            Print (''|- Removing the temporary file '' @ ''/tmp/toolenv-download-1'' @ [newline]),
            CloseBody])"
proof -
  have a: "\<exists>work. snd (installTool h ''https://x/a.tgz'' ''env/storage/a@1'' [])
       = scratch_created ''https://x/a.tgz'' ''/tmp/toolenv-download-1'' [] @ work
         @ [CloseFile ''/tmp/toolenv-download-1'', Remove ''/tmp/toolenv-download-1'',
            Print (''|- Removing the temporary file '' @ ''/tmp/toolenv-download-1'' @ [newline]),
            CloseBody]"
    if "http_get h [downloading ''https://x/a.tgz''] ''https://x/a.tgz''
          = Inr \<lparr>StatusCode = 200, Status = ''status''\<rparr>"
      "create_temp h (fetched ''https://x/a.tgz'' []) = Inr ''/tmp/toolenv-download-1''" for h
    using installTool_releases_scratch [of h "[]" "''https://x/a.tgz''"
        "\<lparr>StatusCode = 200, Status = ''status''\<rparr>" "''/tmp/toolenv-download-1''"
        "''env/storage/a@1''"] that
    by auto
  show ?thesis
    by (intro conjI a) (simp_all add: calm_host_def)
qed

subsection \<open>The run\<close>

lemma installTool_extends: "\<exists>ev. snd (installTool h url d tr) = tr @ ev"
  by (auto simp add: installTool_def Let_def extractTarGz_def extractTarXz_def
      split: sum.splits option.splits)

lemma install_tools_extends: "\<exists>ev. snd (install_tools h sd tools tr) = tr @ ev"
proof (induction tools arbitrary: tr)
  case Nil
  show ?case by simp
next
  case (Cons t ts)
  obtain os_name arch where ns: "normalizeSystem h (Normalization t) = (os_name, arch)"
    by (cases "normalizeSystem h (Normalization t)")
  show ?case
  proof (cases "buildURL (URL t) (Version t) os_name arch")
    case (Inl e)
    with ns show ?thesis by simp
  next
    case (Inr url)
    let ?dir = "Join [sd, Name t @ ''@'' @ Version t]"
    show ?thesis
    proof (cases "mkdir_all h tr ?dir")
      case (Some e)
      with ns Inr show ?thesis by (simp add: Let_def)
    next
      case None
      let ?tr1 = "tr @ [MkdirAll ?dir,
        Print ([newline] @ ''Installing '' @ Name t @ '' version '' @ Version t @ '' ...'' @ [newline])]"
      obtain r tr2 where it: "installTool h url ?dir ?tr1 = (r, tr2)"
        by (cases "installTool h url ?dir ?tr1")
      obtain ev where ev: "tr2 = ?tr1 @ ev"
        using installTool_extends[of h url ?dir ?tr1] it by auto
      show ?thesis
      proof (cases r)
        case (Some e)
        with ns Inr None it ev show ?thesis by (simp add: Let_def)
      next
        case N: None
        obtain ev' where "snd (install_tools h sd ts (tr2 @ [Print (''|- Done!'' @ [newline, newline])]))
            = (tr2 @ [Print (''|- Done!'' @ [newline, newline])]) @ ev'"
          using Cons.IH by blast
        with ns Inr None it ev N show ?thesis by (simp add: Let_def)
      qed
    qed
  qed
qed



lemma setup_env_reaches_tools:
  assumes "reaches_tools h env_name tools"
  shows "setup_env h env_name =
     (case install_tools h (storage_dir env_name) tools (storage_reset env_name) of
        (Some err, tr2) \<Rightarrow> (Some err, tr2)
      | (None, tr2) \<Rightarrow>
          (case generateActivationScript h env_name tools tr2 of
             (Some err, tr3) \<Rightarrow> (Some err, tr3)
           | (None, tr3) \<Rightarrow>
               (None,
                tr3 @ [Print (''Environment created at ./'' @ Join [''.'', env_name] @ [newline]),
                       Print (''Activate with: source ./'' @ Join [''.'', env_name]
                              @ ''/bin/activate'' @ [newline])])))"
  using assms
  by (simp add: reaches_tools_def setup_env_def loadEnv_def Let_def config_read_def
      bin_dir_def storage_dir_def storage_reset_def)

lemma generateActivationScript_events:
  "snd (generateActivationScript h env_name tools tr) = tr \<or>
   (\<exists>content. snd (generateActivationScript h env_name tools tr)
      = tr @ [WriteFile (Join [env_name, ''bin'', ''activate'']) content])"
  by (simp add: generateActivationScript_def Let_def split: sum.splits)

lemma generateActivationScript_success:
  "fst (generateActivationScript h env_name tools tr) = None \<Longrightarrow>
   \<exists>content. snd (generateActivationScript h env_name tools tr)
      = tr @ [WriteFile (Join [env_name, ''bin'', ''activate'']) content]"
  by (simp add: generateActivationScript_def Let_def split: sum.splits)




lemma reaches_tools_calm_host: "reaches_tools (calm_host tools 200) env_name tools"
  by (simp add: reaches_tools_def calm_host_def)


text \<open>
  C9, as the specification states it, fails for the empty manifest: the run
  succeeds, \<^verbatim>\<open>storage/\<close> is removed, and the only events after the removal are
  the write of \<^verbatim>\<open>bin/activate\<close> and the two closing messages. Nothing creates
  \<^verbatim>\<open>storage/\<close> again.
\<close>

theorem empty_manifest_leaves_no_storage:
  "setup_env (calm_host [] 200) ''env''
     = (None,
        [OpenFile ''toolenv.yml'', CloseFile ''toolenv.yml'',
         MkdirAll ''env/bin'', RemoveAll ''env/storage'',
         WriteFile ''env/bin/activate''
           (builder_string
              [UsageComment ''env'', ModifiesComment, SetToolenvDir ''env'', SavePath,
               SavePS1, SetPS1, DeactivateOpen, RestorePS1, UnsetOldPS1, RestorePath,
               UnsetPreviousPath, UnsetToolenvDir, UnsetDeactivate, DeactivateClose]),
         Print (''Environment created at ./env'' @ [newline]),
         Print (''Activate with: source ./env/bin/activate'' @ [newline])])"
  by code_simp

text \<open>
  C9, amended: on every run that reads the manifest, creates \<^verbatim>\<open>bin/\<close> and
  removes \<^verbatim>\<open>storage/\<close> without error, the removal of \<^verbatim>\<open>storage/\<close> comes before
  every event of the tools. With an empty tool list nothing creates a directory
  after the removal. With a first tool whose URL resolves, the event after the
  removal is the \<^verbatim>\<open>MkdirAll\<close> of that tool's install directory, which brings
  \<^verbatim>\<open>storage/\<close> back as its parent. Every run that ends without error has
  written \<^verbatim>\<open>bin/activate\<close>, the run with an empty tool list too.
\<close>

theorem storage_removed_before_tools:
  assumes "reaches_tools h env_name tools"
  shows "\<exists>rest. snd (setup_env h env_name) = storage_reset env_name @ rest
     \<and> (tools = [] \<longrightarrow> (\<forall>p. MkdirAll p \<notin> set rest))
     \<and> (fst (setup_env h env_name) = None \<longrightarrow>
          (\<exists>content. WriteFile (Join [env_name, ''bin'', ''activate'']) content \<in> set rest))
     \<and> (\<forall>tool others url.
          tools = tool # others \<and>
          buildURL (URL tool) (Version tool) (fst (normalizeSystem h (Normalization tool)))
            (snd (normalizeSystem h (Normalization tool))) = Inr url \<longrightarrow>
          (\<exists>more. rest
             = MkdirAll (Join [storage_dir env_name, Name tool @ ''@'' @ Version tool]) # more))"
proof -
  let ?start = "storage_reset env_name"
  obtain r tr2 where it: "install_tools h (storage_dir env_name) tools ?start = (r, tr2)"
    by (cases "install_tools h (storage_dir env_name) tools ?start")
  obtain ev where ev: "tr2 = ?start @ ev"
    using install_tools_extends[of h "storage_dir env_name" tools ?start] it by auto
  obtain g tr3 where gen: "generateActivationScript h env_name tools tr2 = (g, tr3)"
    by (cases "generateActivationScript h env_name tools tr2")
  have run: "setup_env h env_name =
      (case r of Some err \<Rightarrow> (Some err, tr2)
       | None \<Rightarrow> (case g of Some err \<Rightarrow> (Some err, tr3)
           | None \<Rightarrow> (None, tr3 @ [Print (''Environment created at ./'' @ Join [''.'', env_name] @ [newline]),
                       Print (''Activate with: source ./'' @ Join [''.'', env_name]
                              @ ''/bin/activate'' @ [newline])])))"
    using setup_env_reaches_tools[OF assms] it gen by (simp split: option.splits)
  have empty: "ev = []" if "tools = []"
    using that it ev by simp
  have first: "\<exists>more. ev = MkdirAll (Join [storage_dir env_name, Name tool @ ''@'' @ Version tool]) # more"
    if "tools = tool # others"
      "buildURL (URL tool) (Version tool) (fst (normalizeSystem h (Normalization tool)))
            (snd (normalizeSystem h (Normalization tool))) = Inr url" for tool others url
  proof -
    let ?dir = "Join [storage_dir env_name, Name tool @ ''@'' @ Version tool]"
    let ?tr1 = "?start @ [MkdirAll ?dir,
        Print ([newline] @ ''Installing '' @ Name tool @ '' version '' @ Version tool @ '' ...'' @ [newline])]"
    show ?thesis
    proof (cases "mkdir_all h ?start ?dir")
      case (Some e)
      with that it ev show ?thesis by (auto simp add: Let_def split: prod.splits)
    next
      case None
      obtain r1 t1 where i1: "installTool h url ?dir ?tr1 = (r1, t1)"
        by (cases "installTool h url ?dir ?tr1")
      obtain e1 where e1: "t1 = ?tr1 @ e1"
        using installTool_extends[of h url ?dir ?tr1] i1 by auto
      obtain e2 where e2: "snd (install_tools h (storage_dir env_name) others
            (t1 @ [Print (''|- Done!'' @ [newline, newline])]))
          = (t1 @ [Print (''|- Done!'' @ [newline, newline])]) @ e2"
        using install_tools_extends by blast
      from that None i1 e1 e2 it ev show ?thesis
        by (cases r1) (auto simp add: Let_def split: prod.splits)
    qed
  qed
  have tail: "\<exists>x. snd (setup_env h env_name) = ?start @ ev @ x
      \<and> (\<forall>p. MkdirAll p \<notin> set x)
      \<and> (fst (setup_env h env_name) = None \<longrightarrow>
            (\<exists>content. WriteFile (Join [env_name, ''bin'', ''activate'']) content \<in> set x))"
  proof (cases r)
    case (Some err)
    with run ev show ?thesis by (intro exI[of _ "[]"]) simp
  next
    case None
    note rN = this
    show ?thesis
    proof (cases g)
      case (Some err)
      from generateActivationScript_events[of h env_name tools tr2] gen
      consider "tr3 = tr2"
        | content where "tr3 = tr2 @ [WriteFile (Join [env_name, ''bin'', ''activate'']) content]"
        by auto
      then show ?thesis
      proof cases
        case 1
        with run rN Some ev show ?thesis by (intro exI[of _ "[]"]) simp
      next
        case 2
        with run rN Some ev show ?thesis
          by (intro exI[of _ "[WriteFile (Join [env_name, ''bin'', ''activate'']) content]"]) simp
      qed
    next
      case None
      from generateActivationScript_success[of h env_name tools tr2] gen None
      obtain content where
        "tr3 = tr2 @ [WriteFile (Join [env_name, ''bin'', ''activate'']) content]"
        by auto
      with run rN None ev show ?thesis
        by (intro exI[of _ "[WriteFile (Join [env_name, ''bin'', ''activate'']) content,
              Print (''Environment created at ./'' @ Join [''.'', env_name] @ [newline]),
              Print (''Activate with: source ./'' @ Join [''.'', env_name]
                              @ ''/bin/activate'' @ [newline])]"]) simp
    qed
  qed
  then obtain x where x: "snd (setup_env h env_name) = ?start @ ev @ x"
    "\<forall>p. MkdirAll p \<notin> set x"
    "fst (setup_env h env_name) = None \<longrightarrow>
       (\<exists>content. WriteFile (Join [env_name, ''bin'', ''activate'']) content \<in> set x)"
    by (elim exE conjE)
  have a: "snd (setup_env h env_name) = ?start @ (ev @ x)"
    using x(1) by simp
  have b: "tools = [] \<longrightarrow> (\<forall>p. MkdirAll p \<notin> set (ev @ x))"
    using empty x(2) by auto
  have c: "fst (setup_env h env_name) = None \<longrightarrow>
      (\<exists>content. WriteFile (Join [env_name, ''bin'', ''activate'']) content \<in> set (ev @ x))"
    using x(3) by auto
  have d: "\<forall>tool others url.
          tools = tool # others \<and>
          buildURL (URL tool) (Version tool) (fst (normalizeSystem h (Normalization tool)))
            (snd (normalizeSystem h (Normalization tool))) = Inr url \<longrightarrow>
          (\<exists>more. ev @ x
             = MkdirAll (Join [storage_dir env_name, Name tool @ ''@'' @ Version tool]) # more)"
    using first by fastforce
  from a b c d show ?thesis by (intro exI[of _ "ev @ x"] conjI)
qed

theorem storage_removed_before_tools_witness:
  "\<exists>rest. snd (setup_env (calm_host [] 200) ''env'') = storage_reset ''env'' @ rest
     \<and> (\<forall>p. MkdirAll p \<notin> set rest)
     \<and> (\<exists>content. WriteFile (Join [''env'', ''bin'', ''activate'']) content \<in> set rest)"
proof -
  have "fst (setup_env (calm_host [] 200) ''env'') = None"
    by code_simp
  with storage_removed_before_tools [OF reaches_tools_calm_host [of "[]" "''env''"]]
  show ?thesis by auto
qed

subsection \<open>The activation script\<close>































end
